theory Spec2Isabelle
  imports Main "HOL-Library.Word"
begin

unbundle bit_operations_syntax

section \<open>Data model of term.c\<close>

text \<open>
  term.c connects a keyboard and screen (file descriptor \<open>ttyfd\<close>) to a serial line
  (file descriptor \<open>rs232\<close>).  After \<open>fork()\<close> the child relays serial input to the
  screen (downlink) and the parent relays keyboard input to the serial line (uplink).
  Each process is modelled as a function from the results of its \<open>read()\<close> calls, in
  the order the calls are made, to the list of effects it performs, in order, and the
  way the run ends.
\<close>

type_synonym byte = "8 word"

text \<open>The result of \<open>read(ttyfd, &c, 1)\<close>: 1 (a byte was stored), 0, or a negative value.\<close>

datatype read_result = Byte byte | Eof | Err

text \<open>
  Where \<open>SIGTERM\<close> can cut an iteration of the child's loop after \<open>read\<close> has
  returned a block: before \<open>write(ttyfd, buf, x)\<close> (line 304), or after it and
  before \<open>fwrite(..., logfp)\<close> (line 306).
\<close>

datatype cut = BeforeWrite | BeforeLog

text \<open>
  What happens in one iteration of the child's loop: \<open>read(rs232, buf, sizeof(buf))\<close>
  returns a block of \<open>x \<ge> 0\<close> bytes and the iteration runs to its end; \<open>read\<close> fails
  with \<open>EINTR\<close>; it fails with another error; \<open>SIGTERM\<close> is delivered while the child
  is in \<open>read\<close> and \<open>do_term\<close> runs; or \<open>read\<close> returns a block and \<open>SIGTERM\<close> is
  delivered later in the same iteration.
\<close>

datatype serial_event =
  Block "byte list" | Eintr | ReadErr | Term | Interrupted "byte list" cut

datatype signal = SIGUSR1 | SIGUSR2 | SIGTERM

text \<open>\<open>static int proto\<close> with its four \<open>#define\<close>d values.\<close>

datatype protocol = PROTO_RX | PROTO_RY | PROTO_RZ | PROTO_TXT

datatype speed = B300 | B1200 | B2400 | B9600 | B19200 | B38400 | B115200

text \<open>
  A command line handed to \<open>system()\<close>: the program name and, when the format has a
  second \<open>%s\<close>, the file name bytes.
\<close>

datatype command = Command string "byte list option"

datatype effect =
    Kill signal                \<comment> \<open>\<open>kill(child, sig)\<close>\<close>
  | WriteTTY "byte list"       \<comment> \<open>\<open>write(ttyfd, ...)\<close>\<close>
  | WriteSerial "byte list"    \<comment> \<open>\<open>write(rs232, ...)\<close>\<close>
  | RawTTY                     \<comment> \<open>\<open>tcsetattr(ttyfd, TCSAFLUSH, &ntty)\<close>\<close>
  | RestoreTTY                 \<comment> \<open>\<open>tcsetattr(ttyfd, TCSAFLUSH, &otty)\<close>\<close>
  | SetupSerial                \<comment> \<open>\<open>setup_serial(rs232)\<close>\<close>
  | System command             \<comment> \<open>\<open>system(buf)\<close>\<close>
  | Stdout string              \<comment> \<open>\<open>printf(...)\<close>\<close>
  | Stderr string              \<comment> \<open>\<open>fprintf(stderr, ...)\<close> and \<open>perror\<close>\<close>
  | LogWrite "byte list"       \<comment> \<open>\<open>fwrite(buf, 1, x, logfp)\<close>\<close>
  | LogClose                   \<comment> \<open>\<open>fclose(logfp)\<close>\<close>

text \<open>
  How a run ends: the function returns a value and leaves the rest of the keyboard
  input unread; the process exits with a status; the input given is used up while the
  code is inside \<open>read()\<close>; or a store goes outside its buffer.
\<close>

datatype 'a outcome =
    Returns 'a "read_result list"
  | Exits nat
  | Waits
  | Fault

type_synonym 'a run = "effect list \<times> 'a outcome"

text \<open>
  The globals of term.c that the relay reads.  \<open>logfp\<close> is whether the \<open>FILE *\<close> is
  non-null.  Two more fields stand for what C leaves open.  \<open>uninit\<close> is the value an
  uninitialised local \<open>char c\<close> holds when the first \<open>read()\<close> into it fails.
  \<open>sprintf_overlap prog fname\<close> is the command left in \<open>buf\<close> by
  \<open>sprintf(buf, "%s %s", buf, fname)\<close> (line 441) when \<open>buf\<close> holds \<open>prog\<close>: source
  and destination overlap, so the C library decides the result.
\<close>

record globals =
  baud :: speed
  proto :: protocol
  logfp :: bool
  parodd :: bool
  pareven :: bool
  seven_bits :: bool
  raw_kbd :: bool
  uninit :: byte
  sprintf_overlap :: "string \<Rightarrow> byte list \<Rightarrow> command"

text \<open>
  The initial values of the globals (no option given), with a C library whose
  \<open>sprintf\<close> copies front to back, so that the overlapping call yields the program
  name, a space and the file name.
\<close>

definition default_globals :: globals where
  "default_globals =
     \<lparr>baud = B9600, proto = PROTO_RZ, logfp = False, parodd = False, pareven = False,
      seven_bits = False, raw_kbd = False, uninit = 0,
      sprintf_overlap = (\<lambda>prog fname. Command prog (Some fname))\<rparr>"

definition BUFSIZE :: nat where
  "BUFSIZE = 30"

text \<open>\<open>#define PROTO_CHAR '\32'\<close>: octal 32, Control-Z.\<close>

definition PROTO_CHAR :: byte where
  "PROTO_CHAR = 26"

definition NL :: byte where
  "NL = 10"

definition CR :: byte where
  "CR = 13"

text \<open>The bytes of a string literal, as \<open>write()\<close> sends them.\<close>

definition bytes_of :: "string \<Rightarrow> byte list" where
  "bytes_of s = map of_char s"

text \<open>\<open>c &= 0x7F\<close>.\<close>

definition mask7 :: "byte \<Rightarrow> byte" where
  "mask7 c = c AND 0x7F"

text \<open>Sequencing: the effects \<open>es\<close> happen, then the run \<open>r\<close>.\<close>

definition prepend :: "effect list \<Rightarrow> 'a run \<Rightarrow> 'a run" where
  "prepend es r = (es @ fst r, snd r)"

section \<open>Observations on an effect trace\<close>

fun tty_written :: "effect list \<Rightarrow> byte list" where
  "tty_written [] = []"
| "tty_written (WriteTTY bs # es) = bs @ tty_written es"
| "tty_written (e # es) = tty_written es"

fun serial_written :: "effect list \<Rightarrow> byte list" where
  "serial_written [] = []"
| "serial_written (WriteSerial bs # es) = bs @ serial_written es"
| "serial_written (e # es) = serial_written es"

fun log_written :: "effect list \<Rightarrow> byte list" where
  "log_written [] = []"
| "log_written (LogWrite bs # es) = bs @ log_written es"
| "log_written (e # es) = log_written es"

text \<open>The blocks written to the user and to the log, one per call.\<close>

fun tty_blocks :: "effect list \<Rightarrow> byte list list" where
  "tty_blocks [] = []"
| "tty_blocks (WriteTTY bs # es) = bs # tty_blocks es"
| "tty_blocks (e # es) = tty_blocks es"

fun log_blocks :: "effect list \<Rightarrow> byte list list" where
  "log_blocks [] = []"
| "log_blocks (LogWrite bs # es) = bs # log_blocks es"
| "log_blocks (e # es) = log_blocks es"

text \<open>
  Whether the controlling terminal is in raw mode after a trace, given whether it was
  before.
\<close>

fun tty_raw :: "bool \<Rightarrow> effect list \<Rightarrow> bool" where
  "tty_raw m [] = m"
| "tty_raw m (RawTTY # es) = tty_raw True es"
| "tty_raw m (RestoreTTY # es) = tty_raw False es"
| "tty_raw m (e # es) = tty_raw m es"

text \<open>How often an effect occurs in a trace.\<close>

definition occurs :: "effect \<Rightarrow> effect list \<Rightarrow> nat" where
  "occurs e es = length (filter (\<lambda>x. x = e) es)"

fun is_System :: "effect \<Rightarrow> bool" where
  "is_System (System c) = True"
| "is_System e = False"

section \<open>The downlink: child process (main, lines 278-309)\<close>

text \<open>\<open>p = buf; q = buf+x; while (p < q) *p++ &= 0x7F;\<close>\<close>

fun mask_block :: "byte list \<Rightarrow> byte list" where
  "mask_block [] = []"
| "mask_block (b # bs) = mask7 b # mask_block bs"

text \<open>\<open>do_term\<close>: entered in the child on \<open>SIGTERM\<close>.\<close>

definition do_term :: "globals \<Rightarrow> unit run" where
  "do_term g = ((if logfp g then [LogClose] else []), Exits 0)"

text \<open>
  The child's \<open>for (;;)\<close> loop.  A negative \<open>read\<close> with \<open>errno == EINTR\<close> continues;
  any other error is \<open>perror("child"); exit(1)\<close>.  \<open>SIGTERM\<close> runs \<open>do_term\<close>
  wherever it is delivered: the rest of the iteration is not executed.
\<close>

fun child_loop :: "globals \<Rightarrow> serial_event list \<Rightarrow> unit run" where
  "child_loop g [] = ([], Waits)"
| "child_loop g (Block bs # evs) =
     prepend (WriteTTY (mask_block bs) # (if logfp g then [LogWrite (mask_block bs)] else []))
       (child_loop g evs)"
| "child_loop g (Eintr # evs) = child_loop g evs"
| "child_loop g (ReadErr # evs) = ([Stderr ''child''], Exits 1)"
| "child_loop g (Term # evs) = do_term g"
| "child_loop g (Interrupted bs BeforeWrite # evs) = do_term g"
| "child_loop g (Interrupted bs BeforeLog # evs) =
     prepend [WriteTTY (mask_block bs)] (do_term g)"

text \<open>\<open>static char boot_msg[] = "Term ready.\r\n"\<close>, written before the loop.\<close>

definition boot_msg :: "byte list" where
  "boot_msg = bytes_of ''Term ready.'' @ [CR, NL]"

definition child :: "globals \<Rightarrow> serial_event list \<Rightarrow> unit run" where
  "child g evs = prepend [WriteTTY boot_msg] (child_loop g evs)"

section \<open>The uplink: parent process (main, lines 316-341)\<close>

text \<open>Sequencing two runs: the second starts where the first returned.\<close>

definition bind_run :: "'a run \<Rightarrow> ('a \<Rightarrow> read_result list \<Rightarrow> 'b run) \<Rightarrow> 'b run" where
  "bind_run r f =
     (case snd r of
        Returns a rs \<Rightarrow> prepend (fst r) (f a rs)
      | Exits n \<Rightarrow> (fst r, Exits n)
      | Waits \<Rightarrow> (fst r, Waits)
      | Fault \<Rightarrow> (fst r, Fault))"

definition ch :: "char \<Rightarrow> byte" where
  "ch c = of_char c"

text \<open>
  \<open>done()\<close>: \<open>kill(child, SIGTERM); tcsetattr(ttyfd, TCSAFLUSH, &otty);
  write(ttyfd, "Exiting\n", 8); exit(0);\<close>
\<close>

definition done_fn :: "unit run" where
  "done_fn = ([Kill SIGTERM, RestoreTTY, WriteTTY (bytes_of ''Exiting'' @ [NL])], Exits 0)"

text \<open>
  The \<open>do ... while\<close> loop of \<open>prompt_read\<close>.  \<open>len\<close> is the room left, \<open>buf\<close> the
  bytes stored so far, \<open>c\<close> the current content of the local \<open>c\<close>.  The inner
  \<open>while (read(...) == 0) ;\<close> repeats on 0 and goes on with \<open>c\<close> unchanged when
  \<open>read\<close> fails.
\<close>

fun read_line :: "int \<Rightarrow> byte list \<Rightarrow> byte \<Rightarrow> read_result list \<Rightarrow> (byte list) run" where
  "read_line len buf c [] = ([], Waits)"
| "read_line len buf c (Eof # rs) = read_line len buf c rs"
| "read_line len buf c (r # rs) =
     (let c' = mask7 (case r of Byte b \<Rightarrow> b | _ \<Rightarrow> c);
          buf' = (if len \<noteq> 0 then buf @ [c'] else buf);
          len' = (if len \<noteq> 0 then len - 1 else len)
      in if c' \<noteq> NL \<and> c' \<noteq> CR
         then prepend [WriteTTY [c']] (read_line len' buf' c' rs)
         else ([WriteTTY [c']], Returns buf' rs))"

text \<open>
  \<open>prompt_read(ttyfd, prompt, buf, len)\<close>.  After the loop, \<open>buf -= 1; *buf = '\0'\<close>
  replaces the byte stored last by the terminator; with nothing stored that store is
  in front of the buffer.  The result is the buffer content before the terminator.
\<close>

definition prompt_read :: "globals \<Rightarrow> string \<Rightarrow> int \<Rightarrow> read_result list \<Rightarrow> (byte list) run" where
  "prompt_read g prompt len rs =
     prepend [WriteTTY (bytes_of prompt)]
       (bind_run (read_line (len - 1) [] (uninit g) rs)
          (\<lambda>buf rs'. if buf = [] then ([], Fault) else ([], Returns (butlast buf) rs')))"

text \<open>A buffer read as a C string by \<open>%s\<close>: up to the first zero byte.\<close>

definition c_str :: "byte list \<Rightarrow> byte list" where
  "c_str bs = takeWhile (\<lambda>b. b \<noteq> 0) bs"

text \<open>\<open>char fname[60]\<close> in \<open>rx_xfer\<close> and \<open>tx_xfer\<close>.\<close>

definition fname_size :: int where
  "fname_size = 60"

definition rx_xfer :: "globals \<Rightarrow> read_result list \<Rightarrow> unit run" where
  "rx_xfer g rs =
     (case proto g of
        PROTO_RX \<Rightarrow>
          bind_run (prompt_read g ''Receive file: '' fname_size rs)
            (\<lambda>fname rs'. ([System (Command ''lrx'' (Some (c_str fname)))], Returns () rs'))
      | PROTO_RY \<Rightarrow> ([System (Command ''lry'' None)], Returns () rs)
      | PROTO_RZ \<Rightarrow> ([System (Command ''lrz'' None)], Returns () rs)
      | PROTO_TXT \<Rightarrow>
          ([Stderr (''Receive not supported with this protocol.'' @ [CHR 0x0D, CHR 0x0A])],
           Returns () rs))"

text \<open>
  \<open>tx_xfer\<close>.  The \<open>switch\<close> copies the program name into \<open>buf\<close>; the command is
  what \<open>sprintf(buf, "%s %s", buf, fname)\<close> then leaves in \<open>buf\<close>.
\<close>

definition tx_xfer :: "globals \<Rightarrow> read_result list \<Rightarrow> unit run" where
  "tx_xfer g rs =
     bind_run (prompt_read g ''Send file: '' fname_size rs)
       (\<lambda>fname rs'.
          ([System (sprintf_overlap g
                      (case proto g of
                         PROTO_RX \<Rightarrow> ''lsx''
                       | PROTO_RY \<Rightarrow> ''lsy''
                       | PROTO_RZ \<Rightarrow> ''lsz''
                       | PROTO_TXT \<Rightarrow> ''cat'')
                      (c_str fname))],
           Returns () rs'))"

definition helpmsg :: "byte list" where
  "helpmsg = bytes_of ''Options are: <r>eceive, <s>end, <q>uit'' @ [CR, NL]"

text \<open>\<open>proto_xfer\<close> from the point where \<open>c\<close> holds the masked sub-command byte.\<close>

definition proto_cmd :: "globals \<Rightarrow> byte \<Rightarrow> read_result list \<Rightarrow> unit run" where
  "proto_cmd g c rs =
     (if c = PROTO_CHAR then ([WriteSerial [c]], Returns () rs)
      else if c = ch CHR ''q'' \<or> c = ch CHR ''Q'' then done_fn
      else if c = ch CHR ''r'' \<or> c = ch CHR ''R''
        then bind_run (rx_xfer g rs) (\<lambda>u rs'. ([SetupSerial], Returns () rs'))
      else if c = ch CHR ''s'' \<or> c = ch CHR ''S'' \<or> c = ch CHR ''t'' \<or> c = ch CHR ''T''
        then bind_run (tx_xfer g rs) (\<lambda>u rs'. ([SetupSerial], Returns () rs'))
      else ([WriteTTY helpmsg], Returns () rs))"

text \<open>
  \<open>proto_xfer\<close>: \<open>while (read(ttyfd, &c, sizeof(c)) == 0) ; c &= 0x7F;\<close> and the
  dispatch.  When \<open>read\<close> fails, \<open>c\<close> was never assigned.
\<close>

fun proto_xfer :: "globals \<Rightarrow> read_result list \<Rightarrow> unit run" where
  "proto_xfer g [] = ([], Waits)"
| "proto_xfer g (Eof # rs) = proto_xfer g rs"
| "proto_xfer g (Byte b # rs) = proto_cmd g (mask7 b) rs"
| "proto_xfer g (Err # rs) = proto_cmd g (mask7 (uninit g)) rs"

lemma bind_run_cong [fundef_cong]:
  assumes "r = r'"
    and "\<And>a rs. snd r' = Returns a rs \<Longrightarrow> f a rs = f' a rs"
  shows "bind_run r f = bind_run r' f'"
  using assms by (auto simp: bind_run_def split: outcome.splits)

lemma read_line_shorter:
  "snd (read_line len buf c rs) = Returns x rs' \<Longrightarrow> length rs' < length rs"
  by (induction len buf c rs rule: read_line.induct)
    (fastforce simp: Let_def prepend_def split: if_splits)+

lemma prompt_read_shorter:
  "snd (prompt_read g p len rs) = Returns x rs' \<Longrightarrow> length rs' < length rs"
  by (auto simp: prompt_read_def bind_run_def prepend_def
      split: outcome.splits if_splits dest: read_line_shorter)

lemma rx_xfer_shorter:
  "snd (rx_xfer g rs) = Returns x rs' \<Longrightarrow> length rs' \<le> length rs"
  by (auto simp: rx_xfer_def bind_run_def prepend_def
      split: protocol.splits outcome.splits dest: prompt_read_shorter)

lemma tx_xfer_shorter:
  "snd (tx_xfer g rs) = Returns x rs' \<Longrightarrow> length rs' \<le> length rs"
  by (auto simp: tx_xfer_def bind_run_def prepend_def
      split: outcome.splits dest: prompt_read_shorter)

lemma proto_cmd_shorter:
  "snd (proto_cmd g c rs) = Returns x rs' \<Longrightarrow> length rs' \<le> length rs"
  by (auto simp: proto_cmd_def done_fn_def bind_run_def prepend_def
      split: if_splits outcome.splits dest: rx_xfer_shorter tx_xfer_shorter)

lemma proto_xfer_shorter:
  "snd (proto_xfer g rs) = Returns x rs' \<Longrightarrow> length rs' < length rs"
  by (induction g rs rule: proto_xfer.induct)
    (fastforce dest: proto_cmd_shorter)+

text \<open>
  The parent's loop \<open>while ((x = read(ttyfd, &c, 1)) == 1) { ... }\<close>, followed by
  \<open>if (x < 0) perror("parent"); done();\<close>.
\<close>

function uplink :: "globals \<Rightarrow> read_result list \<Rightarrow> unit run" where
  "uplink g [] = ([], Waits)"
| "uplink g (Eof # rs) = done_fn"
| "uplink g (Err # rs) = prepend [Stderr ''parent''] done_fn"
| "uplink g (Byte b # rs) =
     (if mask7 b = PROTO_CHAR
      then prepend [Kill SIGUSR1]
             (bind_run (proto_xfer g rs) (\<lambda>u rs'. prepend [Kill SIGUSR2] (uplink g rs')))
      else prepend [WriteSerial [if \<not> raw_kbd g \<and> mask7 b = NL then CR else mask7 b]]
             (uplink g rs))"
  by pat_completeness auto
termination
  by (relation "measure (\<lambda>(g, rs). length rs)") (auto dest: proto_xfer_shorter)

section \<open>The parent from start-up (main, lines 246-341)\<close>

text \<open>
  What \<open>open()\<close> of the serial device and \<open>fork()\<close> return in the parent: \<open>open\<close>
  fails; \<open>open\<close> succeeds and \<open>fork\<close> fails; both succeed.
\<close>

datatype startup = OpenFails | ForkFails | Forked

text \<open>
  \<open>main\<close> after option parsing, in the parent: the two \<open>printf\<close> lines, \<open>open\<close> of
  the device \<open>tty\<close> (\<open>perror(tty); exit(1)\<close> on failure), raw mode on the controlling
  terminal, \<open>setup_serial\<close>, \<open>fork\<close> (\<open>perror("child fork"); exit(1)\<close> on failure),
  then the relay loop.
\<close>

definition main_parent :: "globals \<Rightarrow> string \<Rightarrow> startup \<Rightarrow> read_result list \<Rightarrow> unit run" where
  "main_parent g tty st rs =
     prepend [Stdout (''Terminal starting up...'' @ [CHR 0x0A]),
              Stdout (''Use ^Z-q (control-Z, followed by q) to quit.'' @ [CHR 0x0A])]
       (case st of
          OpenFails \<Rightarrow> ([Stderr tty], Exits 1)
        | ForkFails \<Rightarrow> ([RawTTY, SetupSerial, Stderr ''child fork''], Exits 1)
        | Forked \<Rightarrow> prepend [RawTTY, SetupSerial] (uplink g rs))"

text \<open>
  The parent installs no signal handler.  A signal whose default action terminates
  the process, delivered after the parent's \<open>n\<close>-th effect, ends it there: these are
  the effects it has performed.
\<close>

definition forced_termination :: "nat \<Rightarrow> unit run \<Rightarrow> effect list" where
  "forced_termination n r = take n (fst r)"

section \<open>Serial line configuration (setup_serial, lines 106-143)\<close>

text \<open>
  The attributes of a terminal line, \<open>struct termios\<close>.  Each flag word is the set of
  its flags that are on; the flags term.c names are constructors, every other bit of
  the word is \<open>Bit n\<close>.  The two-bit \<open>CSIZE\<close> field of \<open>c_cflag\<close> is a field of its
  own.
\<close>

datatype iflag = IBit nat
datatype oflag = OPOST | OBit nat
datatype cflag = CLOCAL | CSTOPB | PARENB | PARODD | CBit nat
datatype lflag = ECHO | ICANON | ISIG | LBit nat
datatype csize = CS5 | CS6 | CS7 | CS8

record termios =
  c_iflag :: "iflag set"
  c_oflag :: "oflag set"
  c_cflag :: "cflag set"
  c_csize :: csize
  c_lflag :: "lflag set"
  c_vmin :: nat
  c_vtime :: nat
  c_ispeed :: speed
  c_ospeed :: speed

text \<open>The serial device: its attributes and the \<open>O_NDELAY\<close> file status flag.\<close>

record serial_line =
  attrs :: termios
  o_ndelay :: bool

text \<open>
  \<open>setup_serial(rs232fd)\<close>: \<open>tcgetattr\<close> into \<open>ext\<close>, the assignments to \<open>ext\<close> in
  the order of the source, \<open>tcsetattr\<close>, then \<open>O_NDELAY\<close> is cleared with \<open>fcntl\<close>.
\<close>

definition setup_serial :: "globals \<Rightarrow> serial_line \<Rightarrow> serial_line" where
  "setup_serial g ln =
     (let ext = attrs ln;
          ext = ext\<lparr>c_lflag := c_lflag ext - {ECHO, ICANON, ISIG}\<rparr>;
          ext = ext\<lparr>c_cflag := insert CLOCAL (c_cflag ext)\<rparr>;
          ext = ext\<lparr>c_csize := (if seven_bits g then CS7 else CS8)\<rparr>;
          ext = ext\<lparr>c_cflag := c_cflag ext - {CSTOPB}\<rparr>;
          ext = (if \<not> parodd g \<and> \<not> pareven g then ext\<lparr>c_cflag := c_cflag ext - {PARENB}\<rparr>
                 else if parodd g then ext\<lparr>c_cflag := insert PARODD (c_cflag ext)\<rparr>
                 else ext);
          ext = ext\<lparr>c_oflag := c_oflag ext - {OPOST}\<rparr>;
          ext = ext\<lparr>c_iflag := {}\<rparr>;
          ext = ext\<lparr>c_vmin := BUFSIZE\<rparr>;
          ext = ext\<lparr>c_vtime := 1\<rparr>;
          ext = ext\<lparr>c_ispeed := baud g\<rparr>;
          ext = ext\<lparr>c_ospeed := baud g\<rparr>
      in \<lparr>attrs = ext, o_ndelay = False\<rparr>)"

text \<open>
  The parity a line works with, as \<open>termios\<close> defines it: none unless \<open>PARENB\<close> is
  on; with \<open>PARENB\<close> on, odd if \<open>PARODD\<close> is on and even otherwise.
\<close>

datatype parity = NoParity | OddParity | EvenParity

definition line_parity :: "termios \<Rightarrow> parity" where
  "line_parity t =
     (if PARENB \<notin> c_cflag t then NoParity
      else if PARODD \<in> c_cflag t then OddParity else EvenParity)"

text \<open>The parity selected on the command line (\<open>-o\<close>, \<open>-e\<close> or neither).\<close>

definition selected_parity :: "globals \<Rightarrow> parity" where
  "selected_parity g = (if parodd g then OddParity else if pareven g then EvenParity else NoParity)"

text \<open>A serial device as it is opened: 8 bits, no parity, 9600 baud, cooked.\<close>

definition fresh_line :: serial_line where
  "fresh_line =
     \<lparr>attrs = \<lparr>c_iflag = {}, c_oflag = {OPOST}, c_cflag = {}, c_csize = CS8,
                c_lflag = {ECHO, ICANON, ISIG}, c_vmin = 1, c_vtime = 0,
                c_ispeed = B9600, c_ospeed = B9600\<rparr>,
      o_ndelay = True\<rparr>"

text \<open>The same device after a program has left it at 7 bits, odd parity.\<close>

definition odd_line :: serial_line where
  "odd_line = fresh_line\<lparr>attrs := (attrs fresh_line)\<lparr>c_cflag := {PARENB, PARODD}, c_csize := CS7\<rparr>\<rparr>"

section \<open>The two processes and the signals between them\<close>

text \<open>
  The parent and the child run side by side.  The child is in its read loop, blocked
  in \<open>pause()\<close> inside the handler \<open>usr1\<close>, or has exited.  A state of the system is
  the effects the parent has still to perform (a suffix of its trace), the state of
  the child, and the signals sent to the child and not yet delivered.  \<open>kill()\<close>
  only makes the signal pending; the child handles it in a step of its own.
\<close>

datatype child_state = C_Loop | C_Paused | C_Exited

datatype system = Sys (todo: "effect list") (chld: child_state) (pending: "signal set")

text \<open>The signal an effect of the parent makes pending for the child.\<close>

fun sends :: "effect \<Rightarrow> signal set" where
  "sends (Kill sg) = {sg}"
| "sends e = {}"

text \<open>
  One step: the parent performs its next effect; or a pending signal is delivered to
  the child: \<open>SIGUSR1\<close> in the loop runs \<open>usr1\<close>, which calls \<open>pause()\<close>;
  \<open>SIGUSR2\<close> runs \<open>usr2\<close>, after which a \<open>pause()\<close> returns; \<open>SIGTERM\<close> runs
  \<open>do_term\<close>.
\<close>

inductive step :: "system \<Rightarrow> system \<Rightarrow> bool" where
  parent_next: "step (Sys (e # es) c pd) (Sys es c (pd \<union> sends e))"
| deliver_usr1: "SIGUSR1 \<in> pd \<Longrightarrow> step (Sys es C_Loop pd) (Sys es C_Paused (pd - {SIGUSR1}))"
| deliver_usr2_paused:
    "SIGUSR2 \<in> pd \<Longrightarrow> step (Sys es C_Paused pd) (Sys es C_Loop (pd - {SIGUSR2}))"
| deliver_usr2_loop:
    "SIGUSR2 \<in> pd \<Longrightarrow> step (Sys es C_Loop pd) (Sys es C_Loop (pd - {SIGUSR2}))"
| deliver_term_loop:
    "SIGTERM \<in> pd \<Longrightarrow> step (Sys es C_Loop pd) (Sys es C_Exited (pd - {SIGTERM}))"
| deliver_term_paused:
    "SIGTERM \<in> pd \<Longrightarrow> step (Sys es C_Paused pd) (Sys es C_Exited (pd - {SIGTERM}))"

inductive reach :: "system \<Rightarrow> system \<Rightarrow> bool" where
  reach_refl: "reach s s"
| reach_step: "reach s t \<Longrightarrow> step t u \<Longrightarrow> reach s u"

text \<open>The parent is about to call \<open>system()\<close> while the child is in its read loop.\<close>

fun transfer_unpaused :: "system \<Rightarrow> bool" where
  "transfer_unpaused (Sys (System cmd # es) C_Loop pd) = True"
| "transfer_unpaused s = False"

text \<open>
  The order of signals and transfers in a trace of the parent.  Scanning fails
  (\<open>None\<close>) when a pause signal is sent twice in a row, a resume signal is sent with
  no pause signal before it or after a transfer with no \<open>setup_serial\<close> in between, or
  \<open>system()\<close> is called outside a pause.
\<close>

datatype phase = Relaying | Pause_Sent | Transferred

fun scan :: "phase \<Rightarrow> effect list \<Rightarrow> phase option" where
  "scan p [] = Some p"
| "scan p (Kill SIGUSR1 # es) = (if p = Relaying then scan Pause_Sent es else None)"
| "scan p (Kill SIGUSR2 # es) = (if p = Pause_Sent then scan Relaying es else None)"
| "scan p (System cmd # es) = (if p = Pause_Sent then scan Transferred es else None)"
| "scan p (SetupSerial # es) = scan (if p = Transferred then Pause_Sent else p) es"
| "scan p (e # es) = scan p es"

section \<open>The shape of a run of the parent\<close>

text \<open>
  The shape of a run of the parent: it is still going (returned or waiting) and has
  not restored the terminal mode, or it has exited with status 0 and its last effects
  are those of \<open>done()\<close>, the only restore of the run.
\<close>

definition parent_run :: "'a run \<Rightarrow> bool" where
  "parent_run r =
     (((\<exists>a rs. snd r = Returns a rs) \<or> snd r = Waits) \<and> RestoreTTY \<notin> set (fst r)
      \<or> snd r = Exits 0 \<and> (\<exists>es. fst r = es @ fst done_fn \<and> RestoreTTY \<notin> set es))"

section \<open>Sequencing lemmas\<close>

lemma prepend_pair [simp]: "prepend es (fs, out) = (es @ fs, out)"
  by (simp add: prepend_def)

lemma fst_prepend [simp]: "fst (prepend es r) = es @ fst r"
  by (simp add: prepend_def)

lemma snd_prepend [simp]: "snd (prepend es r) = snd r"
  by (simp add: prepend_def)

lemma prepend_prepend [simp]: "prepend es (prepend fs r) = prepend (es @ fs) r"
  by (simp add: prepend_def)

lemma bind_run_Returns [simp]: "bind_run (es, Returns a rs) f = prepend es (f a rs)"
  by (simp add: bind_run_def)

lemma bind_run_Exits [simp]: "bind_run (es, Exits n) f = (es, Exits n)"
  by (simp add: bind_run_def)

lemma bind_run_Waits [simp]: "bind_run (es, Waits) f = (es, Waits)"
  by (simp add: bind_run_def)

lemma bind_run_Fault [simp]: "bind_run (es, Fault) f = (es, Fault)"
  by (simp add: bind_run_def)

lemma bind_run_prepend [simp]: "bind_run (prepend es r) f = prepend es (bind_run r f)"
  by (cases r) (auto simp: bind_run_def prepend_def split: outcome.splits)

lemma bind_run_assoc:
  "bind_run (bind_run r f) k = bind_run r (\<lambda>a rs. bind_run (f a rs) k)"
  by (cases r) (auto simp: bind_run_def prepend_def split: outcome.splits)

section \<open>Properties of the downlink\<close>

lemma mask_block_map: "mask_block bs = map mask7 bs"
  by (induction bs) simp_all

lemma tty_written_append: "tty_written (xs @ ys) = tty_written xs @ tty_written ys"
  by (induction xs rule: tty_written.induct) simp_all

lemma serial_written_append:
  "serial_written (xs @ ys) = serial_written xs @ serial_written ys"
  by (induction xs rule: serial_written.induct) simp_all

lemma log_written_append: "log_written (xs @ ys) = log_written xs @ log_written ys"
  by (induction xs rule: log_written.induct) simp_all

lemma occurs_append: "occurs e (xs @ ys) = occurs e xs + occurs e ys"
  by (simp add: occurs_def)

lemma child_loop_blocks_tty:
  "tty_written (fst (child_loop g (map Block blocks))) = map mask7 (concat blocks)"
  by (induction blocks) (simp_all add: prepend_def mask_block_map)

lemma child_loop_blocks_log:
  "log_written (fst (child_loop g (map Block blocks))) =
     (if logfp g then map mask7 (concat blocks) else [])"
  by (induction blocks) (simp_all add: prepend_def mask_block_map)

lemma child_loop_blocks_waits: "snd (child_loop g (map Block blocks)) = Waits"
  by (induction blocks) (simp_all add: prepend_def)

lemma child_loop_log_blocks:
  "logfp g \<Longrightarrow>
   log_blocks (fst (child_loop g evs)) =
     take (length (log_blocks (fst (child_loop g evs)))) (tty_blocks (fst (child_loop g evs)))
   \<and> length (tty_blocks (fst (child_loop g evs))) \<le>
       Suc (length (log_blocks (fst (child_loop g evs))))"
  by (induction g evs rule: child_loop.induct) (simp_all add: do_term_def)

lemma child_loop_no_log:
  "\<not> logfp g \<Longrightarrow> log_blocks (fst (child_loop g evs)) = []"
  by (induction g evs rule: child_loop.induct) (simp_all add: do_term_def)

text \<open>
  Claim C1, as amended.  In an iteration of the downlink loop that runs to its end,
  every byte of the block read is masked to 7 bits (\<open>AND 0x7F\<close>), the whole masked
  block is written to the user output stream and, when a log sink is configured,
  exactly the same masked block is appended to the log; over any sequence of such
  blocks both outputs are the masked input in arrival order.  Whatever the child
  meets, a block is never logged in part: the log holds whole blocks, each written to
  the user before, and at most the last block written to the user is missing from it.
\<close>

theorem downlink_relay:
  "child_loop g (Block bs # evs) =
     (WriteTTY (map (\<lambda>b. b AND 0x7F) bs) #
        (if logfp g then [LogWrite (map (\<lambda>b. b AND 0x7F) bs)] else []) @ fst (child_loop g evs),
      snd (child_loop g evs))
   \<and> tty_written (fst (child_loop g (map Block blocks))) = map (\<lambda>b. b AND 0x7F) (concat blocks)
   \<and> log_written (fst (child_loop g (map Block blocks))) =
       (if logfp g then map (\<lambda>b. b AND 0x7F) (concat blocks) else [])
   \<and> snd (child_loop g (map Block blocks)) = Waits
   \<and> (logfp g \<longrightarrow>
        log_blocks (fst (child_loop g evs')) =
          take (length (log_blocks (fst (child_loop g evs')))) (tty_blocks (fst (child_loop g evs')))
        \<and> length (tty_blocks (fst (child_loop g evs'))) \<le>
            Suc (length (log_blocks (fst (child_loop g evs')))))
   \<and> (\<not> logfp g \<longrightarrow> log_blocks (fst (child_loop g evs')) = [])"
proof -
  have m: "mask7 = (\<lambda>b. b AND 0x7F)"
    by (rule ext) (simp add: mask7_def)
  have "child_loop g (Block bs # evs) =
     (WriteTTY (map mask7 bs) # (if logfp g then [LogWrite (map mask7 bs)] else []) @ fst (child_loop g evs),
      snd (child_loop g evs))"
    by (simp add: prepend_def mask_block_map)
  moreover have "logfp g \<longrightarrow>
        log_blocks (fst (child_loop g evs')) =
          take (length (log_blocks (fst (child_loop g evs')))) (tty_blocks (fst (child_loop g evs')))
        \<and> length (tty_blocks (fst (child_loop g evs'))) \<le>
            Suc (length (log_blocks (fst (child_loop g evs'))))"
    using child_loop_log_blocks [of g evs'] by blast
  moreover have "\<not> logfp g \<longrightarrow> log_blocks (fst (child_loop g evs')) = []"
    using child_loop_no_log [of g evs'] by blast
  ultimately show ?thesis
    using child_loop_blocks_tty [of g blocks] child_loop_blocks_log [of g blocks]
      child_loop_blocks_waits [of g blocks]
    unfolding m by blast
qed

theorem downlink_relay_witness:
  "tty_written (fst (child_loop (default_globals\<lparr>logfp := True\<rparr>)
       (map Block [[0xC1, 0x0A], [0xFF]]))) = [0x41, 0x0A, 0x7F]
   \<and> log_written (fst (child_loop (default_globals\<lparr>logfp := True\<rparr>)
       (map Block [[0xC1, 0x0A], [0xFF]]))) = [0x41, 0x0A, 0x7F]
   \<and> log_written (fst (child_loop default_globals (map Block [[0xC1, 0x0A], [0xFF]]))) = []
   \<and> log_blocks (fst (child_loop (default_globals\<lparr>logfp := True\<rparr>)
       [Block [0xC1, 0x0A], Eintr, Block [0xFF], Term])) = [[0x41, 0x0A], [0x7F]]
   \<and> tty_blocks (fst (child_loop (default_globals\<lparr>logfp := True\<rparr>)
       [Block [0xC1, 0x0A], Eintr, Block [0xFF], Term])) = [[0x41, 0x0A], [0x7F]]"
  using downlink_relay [of "default_globals\<lparr>logfp := True\<rparr>" "[0xC1, 0x0A]" "[]"
      "[[0xC1, 0x0A], [0xFF]]" "[Block [0xC1, 0x0A], Eintr, Block [0xFF], Term]"]
    downlink_relay [of default_globals "[0xC1, 0x0A]" "[]"
      "[[0xC1, 0x0A], [0xFF]]" "[Block [0xC1, 0x0A], Eintr, Block [0xFF], Term]"]
  by (simp add: default_globals_def mask7_def do_term_def)

text \<open>
  The claim C1 as written has every block read reach the user and the log.  When
  \<open>SIGTERM\<close> is delivered between \<open>write(ttyfd, ...)\<close> and \<open>fwrite(..., logfp)\<close>,
  \<open>do_term\<close> closes the log and exits: the block is on the user's screen and not in
  the log.  Delivered before the \<open>write\<close>, the block read reaches neither.
\<close>

theorem downlink_interrupted_counterexample:
  "logfp (default_globals\<lparr>logfp := True\<rparr>)
   \<and> tty_written (fst (child_loop (default_globals\<lparr>logfp := True\<rparr>)
        [Block [0xC1], Interrupted [0xC2] BeforeLog])) = [0x41, 0x42]
   \<and> log_written (fst (child_loop (default_globals\<lparr>logfp := True\<rparr>)
        [Block [0xC1], Interrupted [0xC2] BeforeLog])) = [0x41]
   \<and> tty_written (fst (child_loop (default_globals\<lparr>logfp := True\<rparr>)
        [Interrupted [0xC2] BeforeWrite])) = []"
  by (simp add: default_globals_def mask7_def do_term_def)

section \<open>Properties of the uplink\<close>

lemma uplink_plain:
  "mask7 b \<noteq> PROTO_CHAR \<Longrightarrow>
   uplink g (Byte b # rs) =
     prepend [WriteSerial [if \<not> raw_kbd g \<and> mask7 b = NL then CR else mask7 b]] (uplink g rs)"
  by simp

lemma uplink_plain_seq:
  "\<forall>b \<in> set bs. mask7 b \<noteq> PROTO_CHAR \<Longrightarrow>
   uplink g (map Byte bs) =
     (map (\<lambda>b. WriteSerial [if \<not> raw_kbd g \<and> mask7 b = NL then CR else mask7 b]) bs, Waits)"
  by (induction bs) simp_all

lemma serial_written_singles:
  "serial_written (map (\<lambda>b. WriteSerial [f b]) bs) = map f bs"
  by (induction bs) simp_all

text \<open>
  Claim C2, as amended.  The escape test and the newline test are made on the masked
  byte.  For keyboard bytes whose 7-bit-masked value is not the escape character, the
  bytes written to the serial line are the masked bytes in order, except that with the
  raw-keyboard flag off a byte whose masked value is newline is written as carriage
  return; with raw-keyboard on it is written as the masked newline.  The relay keeps
  running.
\<close>

theorem uplink_relay:
  assumes "\<forall>b \<in> set bs. mask7 b \<noteq> PROTO_CHAR"
  shows "serial_written (fst (uplink g (map Byte bs))) =
           map (\<lambda>b. if \<not> raw_kbd g \<and> mask7 b = NL then CR else mask7 b) bs
         \<and> snd (uplink g (map Byte bs)) = Waits"
  using assms by (simp add: uplink_plain_seq serial_written_singles)

theorem uplink_relay_witness:
  "serial_written (fst (uplink default_globals (map Byte [0x41, 0x0A, 0x8A, 0xC1]))) = [0x41, 0x0D, 0x0D, 0x41]
   \<and> serial_written (fst (uplink (default_globals\<lparr>raw_kbd := True\<rparr>) (map Byte [0x41, 0x0A, 0x8A, 0xC1]))) = [0x41, 0x0A, 0x0A, 0x41]"
  using uplink_relay [of "[0x41, 0x0A, 0x8A, 0xC1]" default_globals]
    uplink_relay [of "[0x41, 0x0A, 0x8A, 0xC1]" "default_globals\<lparr>raw_kbd := True\<rparr>"]
  by (simp add: mask7_def PROTO_CHAR_def NL_def CR_def default_globals_def)

text \<open>
  The claim C2 as written compares the input byte itself.  Byte \<open>0x8A\<close> is neither
  the escape character nor newline, yet with raw-keyboard off the byte written is
  carriage return, not the masked byte \<open>0x0A\<close>; byte \<open>0x9A\<close> is not the escape
  character, yet nothing is written to the serial line for it.
\<close>

theorem uplink_relay_unmasked_counterexample:
  "(0x8A :: byte) \<noteq> PROTO_CHAR \<and> (0x8A :: byte) \<noteq> NL \<and> \<not> raw_kbd default_globals
   \<and> serial_written (fst (uplink default_globals [Byte 0x8A])) = [CR]
   \<and> [CR] \<noteq> [mask7 0x8A]
   \<and> (0x9A :: byte) \<noteq> PROTO_CHAR
   \<and> serial_written (fst (uplink default_globals [Byte 0x9A])) = []"
  by (simp add: mask7_def PROTO_CHAR_def NL_def CR_def default_globals_def)

text \<open>
  Claim C10.  The first thing the uplink does for a keyboard byte \<open>b\<close> is to send the
  pause signal if and only if \<open>b AND 0x7F = 0x1A\<close>; in particular byte \<open>0x9A\<close>
  starts the handshake and is not relayed to the serial line.
\<close>

theorem escape_on_masked_byte:
  "(take 1 (fst (uplink g (Byte b # rs))) = [Kill SIGUSR1]) = (b AND 0x7F = 0x1A)
   \<and> take 1 (fst (uplink g (Byte 0x9A # rs))) = [Kill SIGUSR1]
   \<and> serial_written (fst (uplink g [Byte 0x9A])) = []"
  by (simp add: mask7_def PROTO_CHAR_def)

section \<open>Exit paths and sub-commands\<close>

lemma read_line_quiet:
  "RestoreTTY \<notin> set (fst (read_line len buf c rs)) \<and>
   (\<forall>n. snd (read_line len buf c rs) \<noteq> Exits n) \<and> snd (read_line len buf c rs) \<noteq> Fault"
  by (induction len buf c rs rule: read_line.induct) (simp_all add: Let_def)

lemma read_line_stores:
  "snd (read_line len buf c rs) = Returns x rs' \<Longrightarrow> len \<noteq> 0 \<or> buf \<noteq> [] \<Longrightarrow> x \<noteq> []"
  by (induction len buf c rs rule: read_line.induct) (auto simp: Let_def split: if_splits)

lemma prompt_read_quiet:
  "len \<noteq> 1 \<Longrightarrow>
   RestoreTTY \<notin> set (fst (prompt_read g p len rs)) \<and>
   (\<forall>n. snd (prompt_read g p len rs) \<noteq> Exits n) \<and> snd (prompt_read g p len rs) \<noteq> Fault"
  using read_line_quiet [of "len - 1" "[]" "uninit g" rs]
    read_line_stores [of "len - 1" "[]" "uninit g" rs]
  by (cases "read_line (len - 1) [] (uninit g) rs")
    (auto simp: prompt_read_def bind_run_def split: outcome.splits)

lemma rx_xfer_quiet:
  "RestoreTTY \<notin> set (fst (rx_xfer g rs)) \<and>
   (\<forall>n. snd (rx_xfer g rs) \<noteq> Exits n) \<and> snd (rx_xfer g rs) \<noteq> Fault"
  using prompt_read_quiet [of fname_size g "''Receive file: ''" rs]
  by (cases "prompt_read g ''Receive file: '' fname_size rs")
    (auto simp: rx_xfer_def fname_size_def bind_run_def split: protocol.splits outcome.splits)

lemma tx_xfer_quiet:
  "RestoreTTY \<notin> set (fst (tx_xfer g rs)) \<and>
   (\<forall>n. snd (tx_xfer g rs) \<noteq> Exits n) \<and> snd (tx_xfer g rs) \<noteq> Fault"
  using prompt_read_quiet [of fname_size g "''Send file: ''" rs]
  by (cases "prompt_read g ''Send file: '' fname_size rs")
    (auto simp: tx_xfer_def fname_size_def bind_run_def split: protocol.splits outcome.splits)

lemma parent_run_done: "parent_run done_fn"
  by (simp add: parent_run_def done_fn_def)

lemma parent_run_prepend:
  assumes "parent_run r" and "RestoreTTY \<notin> set es"
  shows "parent_run (prepend es r)"
proof -
  have "fst r = fs @ fst done_fn \<Longrightarrow> RestoreTTY \<notin> set fs \<Longrightarrow>
        \<exists>hs. es @ fst r = hs @ fst done_fn \<and> RestoreTTY \<notin> set hs" for fs
    using assms(2) by (intro exI [of _ "es @ fs"]) simp
  with assms show ?thesis
    unfolding parent_run_def by auto
qed

lemma parent_run_bind:
  assumes "parent_run r" and "\<And>a rs. parent_run (f a rs)"
  shows "parent_run (bind_run r f)"
proof (cases "snd r")
  case (Returns a rs)
  with assms(1) have "RestoreTTY \<notin> set (fst r)"
    by (simp add: parent_run_def)
  then have "parent_run (prepend (fst r) (f a rs))"
    using assms(2) by (rule parent_run_prepend [rotated])
  with Returns show ?thesis by (simp add: bind_run_def)
next
  case (Exits n)
  with assms(1) show ?thesis by (simp add: bind_run_def parent_run_def)
next
  case Waits
  with assms(1) show ?thesis by (simp add: bind_run_def parent_run_def)
next
  case Fault
  with assms(1) show ?thesis by (simp add: parent_run_def)
qed

lemma parent_run_quiet:
  assumes "RestoreTTY \<notin> set (fst r) \<and> (\<forall>n. snd r \<noteq> Exits n) \<and> snd r \<noteq> Fault"
  shows "parent_run r"
  using assms by (cases "snd r") (simp_all add: parent_run_def)

lemma parent_run_if:
  "parent_run x \<Longrightarrow> parent_run y \<Longrightarrow> parent_run (if b then x else y)"
  by simp

lemma parent_run_proto_cmd: "parent_run (proto_cmd g c rs)"
proof -
  have k: "parent_run (([SetupSerial], Returns () rs') :: unit run)" for rs'
    by (simp add: parent_run_def)
  have "parent_run (bind_run (rx_xfer g rs) (\<lambda>u rs'. ([SetupSerial], Returns () rs')))"
    by (intro parent_run_bind parent_run_quiet rx_xfer_quiet k)
  moreover have "parent_run (bind_run (tx_xfer g rs) (\<lambda>u rs'. ([SetupSerial], Returns () rs')))"
    by (intro parent_run_bind parent_run_quiet tx_xfer_quiet k)
  moreover have "parent_run (([WriteSerial [c]], Returns () rs) :: unit run)"
    and "parent_run (([WriteTTY helpmsg], Returns () rs) :: unit run)"
    by (simp_all add: parent_run_def)
  ultimately show ?thesis
    unfolding proto_cmd_def by (intro parent_run_if parent_run_done)
qed

lemma parent_run_proto_xfer: "parent_run (proto_xfer g rs)"
  by (induction g rs rule: proto_xfer.induct)
    (simp_all add: parent_run_proto_cmd, simp add: parent_run_def)

lemma parent_run_uplink: "parent_run (uplink g rs)"
proof (induction g rs rule: uplink.induct)
  case (1 g)
  show ?case by (simp add: parent_run_def)
next
  case (2 g rs)
  show ?case by (simp add: parent_run_done)
next
  case (3 g rs)
  show ?case by (simp add: parent_run_done parent_run_prepend del: prepend_pair)
next
  case (4 g b rs)
  show ?case
  proof (cases "mask7 b = PROTO_CHAR")
    case True
    have "parent_run (bind_run (proto_xfer g rs) (\<lambda>u rs'. prepend [Kill SIGUSR2] (uplink g rs')))"
    proof (cases "snd (proto_xfer g rs)")
      case (Returns a rs')
      with 4 True have "parent_run (uplink g rs')" by simp
      then have "parent_run (prepend [Kill SIGUSR2] (uplink g rs'))"
        by (rule parent_run_prepend) simp
      moreover from Returns parent_run_proto_xfer [of g rs]
      have "RestoreTTY \<notin> set (fst (proto_xfer g rs))"
        by (simp add: parent_run_def)
      ultimately have "parent_run (prepend (fst (proto_xfer g rs))
          (prepend [Kill SIGUSR2] (uplink g rs')))"
        by (rule parent_run_prepend)
      with Returns show ?thesis by (simp add: bind_run_def)
    next
      case (Exits n)
      with parent_run_proto_xfer [of g rs] show ?thesis
        by (simp add: bind_run_def parent_run_def)
    next
      case Waits
      with parent_run_proto_xfer [of g rs] show ?thesis
        by (simp add: bind_run_def parent_run_def)
    next
      case Fault
      with parent_run_proto_xfer [of g rs] show ?thesis
        by (simp add: parent_run_def)
    qed
    then have "parent_run (prepend [Kill SIGUSR1]
        (bind_run (proto_xfer g rs) (\<lambda>u rs'. prepend [Kill SIGUSR2] (uplink g rs'))))"
      by (rule parent_run_prepend) simp
    with True show ?thesis by simp
  next
    case False
    from 4 False have "parent_run (uplink g rs)" by simp
    then have "parent_run (prepend [WriteSerial [if \<not> raw_kbd g \<and> mask7 b = NL then CR else mask7 b]]
        (uplink g rs))"
      by (rule parent_run_prepend) simp
    with False show ?thesis by simp
  qed
qed

lemma occurs_split:
  "occurs e es = occurs e (take n es) + occurs e (drop n es)"
  by (metis append_take_drop_id occurs_append)

lemma occurs_absent: "e \<notin> set es \<Longrightarrow> occurs e es = 0"
  by (induction es) (auto simp: occurs_def)

lemma uplink_no_return: "snd (uplink g rs) \<noteq> Returns a rs'"
proof (induction g rs rule: uplink.induct)
  case (4 g b rs)
  then show ?case
    by (cases "snd (proto_xfer g rs)") (simp_all add: bind_run_def)
qed (simp_all add: done_fn_def)

lemma uplink_outcome: "snd (uplink g rs) = Waits \<or> snd (uplink g rs) = Exits 0"
  using parent_run_uplink [of g rs] uplink_no_return [of g rs]
  by (auto simp: parent_run_def)

lemma occurs_done: "occurs RestoreTTY (fst done_fn) = 1"
  by (simp add: occurs_def done_fn_def)

lemma uplink_restores:
  "occurs RestoreTTY (fst (uplink g rs)) = (if snd (uplink g rs) = Exits 0 then 1 else 0)"
  using parent_run_uplink [of g rs]
  by (auto simp: parent_run_def occurs_append occurs_done occurs_absent)

lemma uplink_exit_farewell:
  "snd (uplink g rs) = Exits n \<Longrightarrow>
   n = 0 \<and> drop (length (fst (uplink g rs)) - 3) (fst (uplink g rs)) = fst done_fn"
  using parent_run_uplink [of g rs]
  by (auto simp: parent_run_def done_fn_def)

lemma child_loop_restores: "occurs RestoreTTY (fst (child_loop g evs)) = 0"
  by (induction g evs rule: child_loop.induct)
    (simp_all add: occurs_def do_term_def)


lemma tty_raw_append: "tty_raw m (xs @ ys) = tty_raw (tty_raw m xs) ys"
  by (induction m xs rule: tty_raw.induct) simp_all

lemma tty_raw_no_restore:
  "RestoreTTY \<notin> set es \<Longrightarrow> tty_raw m es = (m \<or> RawTTY \<in> set es)"
  by (induction m es rule: tty_raw.induct) auto

lemma tty_raw_uplink: "tty_raw True (fst (uplink g rs)) = (snd (uplink g rs) = Waits)"
proof (cases "snd (uplink g rs) = Waits")
  case True
  with parent_run_uplink [of g rs] have "RestoreTTY \<notin> set (fst (uplink g rs))"
    by (auto simp: parent_run_def)
  with True show ?thesis by (simp add: tty_raw_no_restore)
next
  case False
  with uplink_outcome [of g rs] have x: "snd (uplink g rs) = Exits 0" by simp
  with parent_run_uplink [of g rs] obtain es where "fst (uplink g rs) = es @ fst done_fn"
    by (auto simp: parent_run_def)
  with x show ?thesis by (simp add: tty_raw_append done_fn_def)
qed

lemma child_loop_no_restore: "RestoreTTY \<notin> set (fst (child_loop g evs))"
  by (induction g evs rule: child_loop.induct) (simp_all add: do_term_def)

text \<open>
  Claim C3, as amended.  Once the relay loop of the parent is reached (\<open>open\<close> and
  \<open>fork\<close> have succeeded), the parent is still relaying, with the terminal in raw
  mode, or it has left the loop and exited with status 0 through \<open>done()\<close>, which
  restores the terminal mode snapshot: exactly one restore on every exit from the
  loop (quit sub-command, end of keyboard input, keyboard read error), none before.
  When \<open>open\<close> fails the parent exits before raw mode is set.  The child never
  restores the terminal mode, whichever way it ends.
\<close>

theorem terminal_restore:
  "(snd (uplink g rs) = Waits \<or> snd (uplink g rs) = Exits 0)
   \<and> length (filter (\<lambda>e. e = RestoreTTY) (fst (uplink g rs))) =
       (if snd (uplink g rs) = Exits 0 then 1 else 0)
   \<and> snd (main_parent g tty Forked rs) = snd (uplink g rs)
   \<and> tty_raw False (fst (main_parent g tty Forked rs)) = (snd (uplink g rs) = Waits)
   \<and> snd (main_parent g tty OpenFails rs) = Exits 1
   \<and> RawTTY \<notin> set (fst (main_parent g tty OpenFails rs))
   \<and> RestoreTTY \<notin> set (fst (child_loop g evs))"
  using uplink_outcome [of g rs] uplink_restores [of g rs] tty_raw_uplink [of g rs]
    child_loop_no_restore [of g evs]
  by (simp add: main_parent_def occurs_def)

theorem terminal_restore_witness:
  "main_parent default_globals ''/dev/ttyUSB0'' Forked [Byte 0xC1, Eof] =
     ([Stdout (''Terminal starting up...'' @ [CHR 0x0A]),
       Stdout (''Use ^Z-q (control-Z, followed by q) to quit.'' @ [CHR 0x0A]),
       RawTTY, SetupSerial, WriteSerial [0x41], Kill SIGTERM, RestoreTTY,
       WriteTTY (map of_char ''Exiting'' @ [10])], Exits 0)
   \<and> tty_raw False (fst (main_parent default_globals ''/dev/ttyUSB0'' Forked [Byte 0xC1])) 
   \<and> snd (uplink default_globals [Err]) = Exits 0
   \<and> length (filter (\<lambda>e. e = RestoreTTY) (fst (uplink default_globals [Err]))) = 1
   \<and> snd (uplink default_globals [Byte 0x9A, Byte 0xF1]) = Exits 0
   \<and> length (filter (\<lambda>e. e = RestoreTTY) (fst (uplink default_globals [Byte 0x9A, Byte 0xF1]))) = 1"
  using terminal_restore [of default_globals "[Byte 0xC1, Eof]" "''/dev/ttyUSB0''" "[]"]
    terminal_restore [of default_globals "[Byte 0xC1]" "''/dev/ttyUSB0''" "[]"]
    terminal_restore [of default_globals "[Err]" "''/dev/ttyUSB0''" "[]"]
    terminal_restore [of default_globals "[Byte 0x9A, Byte 0xF1]" "''/dev/ttyUSB0''" "[]"]
  by (simp add: main_parent_def mask7_def PROTO_CHAR_def proto_cmd_def ch_def done_fn_def
      bytes_of_def NL_def CR_def default_globals_def)

text \<open>
  The claim C3 as written covers every exit path, forced termination included.  The
  downlink process exits with status 1 on a fatal read error, and with status 0 on
  \<open>SIGTERM\<close>, without restoring the terminal mode.  The parent installs no signal
  handler: terminated by a signal while it relays, it has set raw mode and performs
  no restore.
\<close>

theorem child_exit_counterexample:
  "snd (child_loop default_globals [ReadErr]) = Exits 1
   \<and> RestoreTTY \<notin> set (fst (child_loop default_globals [ReadErr]))
   \<and> snd (child_loop default_globals [Term]) = Exits 0
   \<and> RestoreTTY \<notin> set (fst (child_loop default_globals [Term]))
   \<and> snd (main_parent default_globals ''/dev/ttyUSB0'' Forked [Byte 0x41]) = Waits
   \<and> forced_termination 5 (main_parent default_globals ''/dev/ttyUSB0'' Forked [Byte 0x41]) =
       [Stdout (''Terminal starting up...'' @ [CHR 0x0A]),
        Stdout (''Use ^Z-q (control-Z, followed by q) to quit.'' @ [CHR 0x0A]),
        RawTTY, SetupSerial, WriteSerial [0x41]]
   \<and> tty_raw False
        (forced_termination 5 (main_parent default_globals ''/dev/ttyUSB0'' Forked [Byte 0x41]))"
  by (simp add: main_parent_def forced_termination_def do_term_def default_globals_def
      mask7_def PROTO_CHAR_def NL_def CR_def)

text \<open>
  The exit after a failed \<open>fork\<close> (lines 311-314) is outside the relay loop: it
  happens with status 1 and the terminal in raw mode.
\<close>

lemma fork_failure_leaves_raw_mode:
  "snd (main_parent g tty ForkFails rs) = Exits 1
   \<and> tty_raw False (fst (main_parent g tty ForkFails rs))"
  by (simp add: main_parent_def)

text \<open>
  Claim C7, as amended.  On end of keyboard input, on a keyboard read error (reported
  on the error stream first) and on the quit sub-command, the parent sends \<open>SIGTERM\<close>
  to the downlink, restores the terminal mode snapshot, writes the farewell notice to
  the user terminal and exits with status 0; every exit of the parent ends with these
  three effects and has status 0.  The downlink, on \<open>SIGTERM\<close>, closes the log sink if
  it is open and exits with status 0.
\<close>

theorem session_termination:
  "uplink g (Eof # rs) =
     ([Kill SIGTERM, RestoreTTY, WriteTTY (bytes_of ''Exiting'' @ [NL])], Exits 0)
   \<and> uplink g (Err # rs) =
     ([Stderr ''parent'', Kill SIGTERM, RestoreTTY, WriteTTY (bytes_of ''Exiting'' @ [NL])],
      Exits 0)
   \<and> (mask7 e = PROTO_CHAR \<and> (mask7 b = ch CHR ''q'' \<or> mask7 b = ch CHR ''Q'') \<longrightarrow>
       uplink g (Byte e # Byte b # rs) =
         ([Kill SIGUSR1, Kill SIGTERM, RestoreTTY, WriteTTY (bytes_of ''Exiting'' @ [NL])],
          Exits 0))
   \<and> (snd (uplink g rs) = Exits n \<longrightarrow>
       n = 0 \<and> drop (length (fst (uplink g rs)) - 3) (fst (uplink g rs)) =
         [Kill SIGTERM, RestoreTTY, WriteTTY (bytes_of ''Exiting'' @ [NL])])
   \<and> child_loop g (Term # evs) = ((if logfp g then [LogClose] else []), Exits 0)"
proof -
  have "snd (uplink g rs) = Exits n \<longrightarrow>
       n = 0 \<and> drop (length (fst (uplink g rs)) - 3) (fst (uplink g rs)) =
         [Kill SIGTERM, RestoreTTY, WriteTTY (bytes_of ''Exiting'' @ [NL])]"
    using uplink_exit_farewell [of g rs n] by (simp add: done_fn_def)
  moreover have "mask7 e = PROTO_CHAR \<and> (mask7 b = ch CHR ''q'' \<or> mask7 b = ch CHR ''Q'') \<longrightarrow>
       uplink g (Byte e # Byte b # rs) =
         ([Kill SIGUSR1, Kill SIGTERM, RestoreTTY, WriteTTY (bytes_of ''Exiting'' @ [NL])],
          Exits 0)"
    by (auto simp: proto_cmd_def done_fn_def ch_def PROTO_CHAR_def)
  ultimately show ?thesis
    by (simp add: done_fn_def do_term_def)
qed

theorem session_termination_witness:
  "mask7 0x9A = PROTO_CHAR \<and> mask7 0xD1 = ch CHR ''Q''
   \<and> uplink (default_globals\<lparr>logfp := True\<rparr>) [Byte 0x9A, Byte 0xD1, Byte 0x41] =
       ([Kill SIGUSR1, Kill SIGTERM, RestoreTTY, WriteTTY (bytes_of ''Exiting'' @ [NL])],
        Exits 0)
   \<and> child_loop (default_globals\<lparr>logfp := True\<rparr>) [Term] = ([LogClose], Exits 0)"
  using session_termination [of "default_globals\<lparr>logfp := True\<rparr>" "[Byte 0x41]" "0x9A" "0xD1" 0 "[]"]
  by (simp add: mask7_def PROTO_CHAR_def ch_def default_globals_def)

text \<open>
  The claim C7 as written has the farewell notice on the serial line and an exit
  status that reflects the originating error.  The notice goes to the user terminal,
  nothing is written to the serial line, and the status after a keyboard read error
  is 0, the same as after a normal end.
\<close>

theorem farewell_status_counterexample:
  "tty_written (fst (uplink default_globals [Eof])) = bytes_of ''Exiting'' @ [NL]
   \<and> serial_written (fst (uplink default_globals [Eof])) = []
   \<and> snd (uplink default_globals [Eof]) = Exits 0
   \<and> serial_written (fst (uplink default_globals [Err])) = []
   \<and> snd (uplink default_globals [Err]) = Exits 0"
  by (simp add: done_fn_def)

lemma bind_run_done: "bind_run done_fn f = done_fn"
  by (simp add: done_fn_def)

text \<open>
  Claim C4.  After the escape character the next byte is masked with \<open>0x7F\<close> and
  dispatched: \<open>q\<close> or \<open>Q\<close> ends the session through \<open>done()\<close>; \<open>r\<close> or \<open>R\<close> runs
  the protocol receive, \<open>s\<close>, \<open>S\<close>, \<open>t\<close> or \<open>T\<close> the protocol send, and when the
  transfer returns the serial line configuration is applied again before the resume
  signal is sent; any other byte except the escape character only writes the help
  message, which lists receive, send and quit, to the user output stream between the
  pause and the resume signal.
\<close>

theorem subcommand_dispatch:
  assumes "e AND 0x7F = 0x1A"
  shows "(b AND 0x7F = of_char CHR ''q'' \<or> b AND 0x7F = of_char CHR ''Q'' \<longrightarrow>
            uplink g (Byte e # Byte b # rs) =
              ([Kill SIGUSR1, Kill SIGTERM, RestoreTTY, WriteTTY (map of_char ''Exiting'' @ [10])],
               Exits 0))
       \<and> (b AND 0x7F = of_char CHR ''r'' \<or> b AND 0x7F = of_char CHR ''R'' \<longrightarrow>
            uplink g (Byte e # Byte b # rs) =
              (case snd (rx_xfer g rs) of
                 Returns u rs' \<Rightarrow>
                   (Kill SIGUSR1 # fst (rx_xfer g rs) @ [SetupSerial, Kill SIGUSR2] @ fst (uplink g rs'),
                    snd (uplink g rs'))
               | out \<Rightarrow> (Kill SIGUSR1 # fst (rx_xfer g rs), out)))
       \<and> (b AND 0x7F = of_char CHR ''s'' \<or> b AND 0x7F = of_char CHR ''S'' \<or>
          b AND 0x7F = of_char CHR ''t'' \<or> b AND 0x7F = of_char CHR ''T'' \<longrightarrow>
            uplink g (Byte e # Byte b # rs) =
              (case snd (tx_xfer g rs) of
                 Returns u rs' \<Rightarrow>
                   (Kill SIGUSR1 # fst (tx_xfer g rs) @ [SetupSerial, Kill SIGUSR2] @ fst (uplink g rs'),
                    snd (uplink g rs'))
               | out \<Rightarrow> (Kill SIGUSR1 # fst (tx_xfer g rs), out)))
       \<and> (b AND 0x7F \<notin> {0x1A, of_char CHR ''q'', of_char CHR ''Q'', of_char CHR ''r'',
                          of_char CHR ''R'', of_char CHR ''s'', of_char CHR ''S'',
                          of_char CHR ''t'', of_char CHR ''T''} \<longrightarrow>
            uplink g (Byte e # Byte b # rs) =
              ([Kill SIGUSR1,
                WriteTTY (map of_char ''Options are: <r>eceive, <s>end, <q>uit'' @ [13, 10]),
                Kill SIGUSR2] @ fst (uplink g rs),
               snd (uplink g rs)))"
proof -
  have esc: "mask7 e = PROTO_CHAR"
    using assms by (simp add: mask7_def PROTO_CHAR_def)
  have quit: "uplink g (Byte e # Byte b # rs) =
      ([Kill SIGUSR1, Kill SIGTERM, RestoreTTY, WriteTTY (map of_char ''Exiting'' @ [10])], Exits 0)"
    if "mask7 b = 113 \<or> mask7 b = 81"
    using that esc
    by (auto simp: proto_cmd_def ch_def PROTO_CHAR_def done_fn_def bytes_of_def NL_def)
  have recv: "uplink g (Byte e # Byte b # rs) =
      (case snd (rx_xfer g rs) of
         Returns u rs' \<Rightarrow>
           (Kill SIGUSR1 # fst (rx_xfer g rs) @ [SetupSerial, Kill SIGUSR2] @ fst (uplink g rs'),
            snd (uplink g rs'))
       | out \<Rightarrow> (Kill SIGUSR1 # fst (rx_xfer g rs), out))"
    if "mask7 b = 114 \<or> mask7 b = 82"
    using that esc
    by (cases "rx_xfer g rs"; cases "snd (rx_xfer g rs)")
      (auto simp: proto_cmd_def ch_def PROTO_CHAR_def bind_run_def prepend_def)
  have send: "uplink g (Byte e # Byte b # rs) =
      (case snd (tx_xfer g rs) of
         Returns u rs' \<Rightarrow>
           (Kill SIGUSR1 # fst (tx_xfer g rs) @ [SetupSerial, Kill SIGUSR2] @ fst (uplink g rs'),
            snd (uplink g rs'))
       | out \<Rightarrow> (Kill SIGUSR1 # fst (tx_xfer g rs), out))"
    if "mask7 b = 115 \<or> mask7 b = 83 \<or> mask7 b = 116 \<or> mask7 b = 84"
    using that esc
    by (cases "tx_xfer g rs"; cases "snd (tx_xfer g rs)")
      (auto simp: proto_cmd_def ch_def PROTO_CHAR_def bind_run_def prepend_def)
  have other: "uplink g (Byte e # Byte b # rs) =
      ([Kill SIGUSR1,
        WriteTTY (map of_char ''Options are: <r>eceive, <s>end, <q>uit'' @ [13, 10]),
        Kill SIGUSR2] @ fst (uplink g rs),
       snd (uplink g rs))"
    if "mask7 b \<notin> {26, 113, 81, 114, 82, 115, 83, 116, 84}"
    using that esc
    by (simp add: proto_cmd_def ch_def PROTO_CHAR_def helpmsg_def bytes_of_def NL_def CR_def
        prepend_def)
  show ?thesis
    using quit recv send other by (simp add: mask7_def)
qed

theorem subcommand_dispatch_witness:
  "uplink default_globals [Byte 0x9A, Byte 0xF1, Byte 0x41] =
       ([Kill SIGUSR1, Kill SIGTERM, RestoreTTY, WriteTTY [0x45, 0x78, 0x69, 0x74, 0x69, 0x6E, 0x67, 0x0A]],
        Exits 0)
   \<and> uplink default_globals [Byte 0x9A, Byte 0xD2, Byte 0x41] =
       ([Kill SIGUSR1, System (Command ''lrz'' None), SetupSerial, Kill SIGUSR2,
         WriteSerial [0x41]], Waits)
   \<and> uplink default_globals [Byte 0x1A, Byte 0xF4, Byte 0xC1, Byte 0x8D, Byte 0x42] =
       ([Kill SIGUSR1, WriteTTY (map of_char ''Send file: ''), WriteTTY [0x41], WriteTTY [0x0D],
         System (sprintf_overlap default_globals ''lsz'' [0x41]), SetupSerial, Kill SIGUSR2,
         WriteSerial [0x42]], Waits)
   \<and> uplink default_globals [Byte 0x1A, Byte 0xF8, Byte 0x41] =
       ([Kill SIGUSR1,
         WriteTTY (map of_char ''Options are: <r>eceive, <s>end, <q>uit'' @ [13, 10]),
         Kill SIGUSR2, WriteSerial [0x41]], Waits)"
  using subcommand_dispatch [of "0x9A" "0xF1" default_globals "[Byte 0x41]"]
    subcommand_dispatch [of "0x9A" "0xD2" default_globals "[Byte 0x41]"]
    subcommand_dispatch [of "0x1A" "0xF4" default_globals "[Byte 0xC1, Byte 0x8D, Byte 0x42]"]
    subcommand_dispatch [of "0x1A" "0xF8" default_globals "[Byte 0x41]"]
  by (simp add: mask7_def PROTO_CHAR_def CR_def NL_def rx_xfer_def tx_xfer_def
      prompt_read_def fname_size_def default_globals_def c_str_def bytes_of_def)

section \<open>The file name prompt\<close>

lemma read_line_plain:
  assumes "\<forall>b \<in> set bs. mask7 b \<noteq> NL \<and> mask7 b \<noteq> CR"
    and "mask7 t = NL \<or> mask7 t = CR"
    and "0 \<le> len"
  shows "read_line len buf c (map Byte bs @ Byte t # rs) =
           (map (\<lambda>b. WriteTTY [mask7 b]) (bs @ [t]),
            Returns (buf @ take (nat len) (map mask7 (bs @ [t]))) rs)"
  using assms
proof (induction bs arbitrary: len buf c)
  case Nil
  then show ?case by (auto simp: Let_def)
next
  case (Cons b bs)
  show ?case
  proof (cases "len = 0")
    case True
    with Cons.prems Cons.IH [of 0 buf "mask7 b"] show ?thesis
      by (simp add: Let_def)
  next
    case False
    with Cons.prems have "nat len = Suc (nat (len - 1))" by simp
    with False Cons.prems Cons.IH [of "len - 1" "buf @ [mask7 b]" "mask7 b"] show ?thesis
      by (simp add: Let_def)
  qed
qed

lemma butlast_take_snoc:
  "0 < n \<Longrightarrow> butlast (take n (xs @ [t])) = take (n - 1) xs"
  by (cases "n \<le> length xs") (simp_all add: butlast_take)

lemma prompt_read_plain:
  assumes "\<forall>b \<in> set bs. mask7 b \<noteq> NL \<and> mask7 b \<noteq> CR"
    and "mask7 t = NL \<or> mask7 t = CR"
    and "2 \<le> len"
  shows "prompt_read g p len (map Byte bs @ Byte t # rs) =
           (WriteTTY (bytes_of p) # map (\<lambda>b. WriteTTY [mask7 b]) (bs @ [t]),
            Returns (take (nat (len - 2)) (map mask7 bs)) rs)"
proof -
  have n: "0 < nat (len - 1)" "nat (len - 1) - 1 = nat (len - 2)"
    using assms(3) by simp_all
  have "take (nat (len - 1)) (map mask7 bs @ [mask7 t]) \<noteq> []"
    using n(1) by (cases "map mask7 bs") simp_all
  moreover have "butlast (take (nat (len - 1)) (map mask7 bs @ [mask7 t])) =
      take (nat (len - 2)) (map mask7 bs)"
    using butlast_take_snoc [OF n(1), of "map mask7 bs" "mask7 t"] n(2) by simp
  ultimately show ?thesis
    using read_line_plain [OF assms(1,2), of "len - 1" "[]" "uninit g" rs] assms(3)
    by (simp add: prompt_read_def)
qed

text \<open>
  Claim C8 at a full buffer.  \<open>tx_xfer\<close> calls \<open>prompt_read\<close> with \<open>sizeof(fname)\<close>,
  60.  The user types 59 times \<open>a\<close> and carriage return: every byte is echoed, the
  loop stores the 59 bytes and has no room for the carriage return, and the final
  \<open>buf -= 1; *buf = '\0'\<close> overwrites the 59th \<open>a\<close>.  The file name is 58 bytes long,
  one less than the bytes collected.
\<close>

theorem prompt_read_full_buffer:
  "prompt_read g ''Send file: '' fname_size (map Byte (replicate 59 (ch CHR ''a'')) @ [Byte CR]) =
     (WriteTTY (bytes_of ''Send file: '') #
        map (\<lambda>b. WriteTTY [b]) (replicate 59 (ch CHR ''a'') @ [CR]),
      Returns (replicate 58 (ch CHR ''a'')) [])
   \<and> snd (read_line (fname_size - 1) [] (uninit g)
            (map Byte (replicate 59 (ch CHR ''a'')) @ [Byte CR])) =
       Returns (replicate 59 (ch CHR ''a'')) []"
proof -
  have a: "mask7 (ch CHR ''a'') = ch CHR ''a''" "ch CHR ''a'' \<noteq> NL" "ch CHR ''a'' \<noteq> CR"
    and c: "mask7 CR = CR"
    by (simp_all add: mask7_def ch_def NL_def CR_def)
  then have ok: "\<forall>b \<in> set (replicate 59 (ch CHR ''a'')). mask7 b \<noteq> NL \<and> mask7 b \<noteq> CR"
    by simp
  have m: "map mask7 (replicate 59 (ch CHR ''a'')) = replicate 59 (ch CHR ''a'')"
    by (simp add: a)
  have "prompt_read g ''Send file: '' 60 (map Byte (replicate 59 (ch CHR ''a'')) @ Byte CR # []) =
      (WriteTTY (bytes_of ''Send file: '') #
         map (\<lambda>b. WriteTTY [mask7 b]) (replicate 59 (ch CHR ''a'') @ [CR]),
       Returns (take (nat (60 - 2)) (map mask7 (replicate 59 (ch CHR ''a'')))) [])"
    by (rule prompt_read_plain [OF ok]) (simp_all add: c)
  moreover have "read_line (60 - 1) [] (uninit g) (map Byte (replicate 59 (ch CHR ''a'')) @ Byte CR # []) =
      (map (\<lambda>b. WriteTTY [mask7 b]) (replicate 59 (ch CHR ''a'') @ [CR]),
       Returns ([] @ take (nat (60 - 1)) (map mask7 (replicate 59 (ch CHR ''a'') @ [CR]))) [])"
    by (rule read_line_plain [OF ok]) (simp_all add: c)
  ultimately show ?thesis
    by (simp add: fname_size_def m a c)
qed

section \<open>Properties of the serial line configuration\<close>

lemma setup_serial_raw:
  "c_lflag (attrs (setup_serial g ln)) \<inter> {ECHO, ICANON, ISIG} = {}
   \<and> CLOCAL \<in> c_cflag (attrs (setup_serial g ln))
   \<and> CSTOPB \<notin> c_cflag (attrs (setup_serial g ln))
   \<and> OPOST \<notin> c_oflag (attrs (setup_serial g ln))
   \<and> c_iflag (attrs (setup_serial g ln)) = {}
   \<and> c_csize (attrs (setup_serial g ln)) = (if seven_bits g then CS7 else CS8)
   \<and> c_ispeed (attrs (setup_serial g ln)) = baud g
   \<and> c_ospeed (attrs (setup_serial g ln)) = baud g
   \<and> c_vmin (attrs (setup_serial g ln)) = BUFSIZE
   \<and> c_vtime (attrs (setup_serial g ln)) = 1
   \<and> \<not> o_ndelay (setup_serial g ln)"
  by (auto simp: setup_serial_def Let_def)

lemma setup_serial_parity:
  "line_parity (attrs (setup_serial g ln)) =
     (if \<not> parodd g \<and> \<not> pareven g \<or> PARENB \<notin> c_cflag (attrs ln) then NoParity
      else if parodd g \<or> PARODD \<in> c_cflag (attrs ln) then OddParity else EvenParity)"
  by (auto simp: setup_serial_def Let_def line_parity_def)

text \<open>
  Claim C6 at odd and at even parity.  \<open>setup_serial\<close> never turns \<open>PARENB\<close> on
  and never turns \<open>PARODD\<close> off: on a line opened without parity, selecting odd or
  even parity leaves the line without parity, and on a line left at odd parity,
  selecting even parity leaves it at odd parity.
\<close>

theorem setup_serial_parity_not_applied:
  "selected_parity (default_globals\<lparr>parodd := True\<rparr>) = OddParity
   \<and> line_parity (attrs (setup_serial (default_globals\<lparr>parodd := True\<rparr>) fresh_line)) = NoParity
   \<and> selected_parity (default_globals\<lparr>pareven := True\<rparr>) = EvenParity
   \<and> line_parity (attrs (setup_serial (default_globals\<lparr>pareven := True\<rparr>) fresh_line)) = NoParity
   \<and> line_parity (attrs (setup_serial (default_globals\<lparr>pareven := True\<rparr>) odd_line)) = OddParity"
  by (simp add: setup_serial_parity selected_parity_def default_globals_def fresh_line_def odd_line_def)

section \<open>Order of the pause and resume signals\<close>

lemma scan_append:
  "scan p (xs @ ys) = (case scan p xs of None \<Rightarrow> None | Some q \<Rightarrow> scan q ys)"
  by (induction p xs rule: scan.induct) simp_all

lemma scan_read_line: "scan p (fst (read_line len buf c rs)) = Some p"
  by (induction len buf c rs rule: read_line.induct) (simp_all add: Let_def)

lemma scan_prompt_read: "scan p (fst (prompt_read g pr len rs)) = Some p"
  by (cases "read_line (len - 1) [] (uninit g) rs")
    (use scan_read_line [of p "len - 1" "[]" "uninit g" rs] in
      \<open>auto simp: prompt_read_def bind_run_def scan_append split: outcome.splits\<close>)

lemma scan_rx_xfer:
  "scan Pause_Sent (fst (rx_xfer g rs)) = Some Pause_Sent \<or>
   scan Pause_Sent (fst (rx_xfer g rs)) = Some Transferred"
  by (cases "prompt_read g ''Receive file: '' fname_size rs")
    (use scan_prompt_read [of Pause_Sent g "''Receive file: ''" fname_size rs] in
      \<open>auto simp: rx_xfer_def bind_run_def scan_append split: outcome.splits protocol.splits\<close>)

lemma scan_tx_xfer:
  "scan Pause_Sent (fst (tx_xfer g rs)) = Some Pause_Sent \<or>
   scan Pause_Sent (fst (tx_xfer g rs)) = Some Transferred"
  by (cases "prompt_read g ''Send file: '' fname_size rs")
    (use scan_prompt_read [of Pause_Sent g "''Send file: ''" fname_size rs] in
      \<open>auto simp: tx_xfer_def bind_run_def scan_append split: outcome.splits protocol.splits\<close>)

lemma scan_then_setup:
  assumes "scan Pause_Sent (fst r) = Some Pause_Sent \<or> scan Pause_Sent (fst r) = Some Transferred"
  shows "\<exists>q. scan Pause_Sent (fst (bind_run r (\<lambda>u rs'. ([SetupSerial], Returns () rs')))) = Some q \<and>
           ((\<exists>rs'. snd (bind_run r (\<lambda>u rs'. ([SetupSerial], Returns () rs'))) = Returns () rs')
              \<longrightarrow> q = Pause_Sent)"
  using assms by (cases r; cases "snd r") (auto simp: scan_append)

lemma scan_proto_cmd:
  "\<exists>q. scan Pause_Sent (fst (proto_cmd g c rs)) = Some q \<and>
        ((\<exists>rs'. snd (proto_cmd g c rs) = Returns () rs') \<longrightarrow> q = Pause_Sent)"
  unfolding proto_cmd_def
  using scan_then_setup [OF scan_rx_xfer, of g rs] scan_then_setup [OF scan_tx_xfer, of g rs]
  by (simp add: done_fn_def)

lemma scan_proto_xfer:
  "\<exists>q. scan Pause_Sent (fst (proto_xfer g rs)) = Some q \<and>
        ((\<exists>rs'. snd (proto_xfer g rs) = Returns () rs') \<longrightarrow> q = Pause_Sent)"
  by (induction g rs rule: proto_xfer.induct) (simp_all add: scan_proto_cmd)

text \<open>
  Claim C9, as amended.  In every run of the parent the pause and resume signals
  alternate, starting with the pause signal; \<open>system()\<close> is only called after a pause
  signal has been sent and before the resume signal that follows it; and after a
  transfer the resume signal is sent only after \<open>setup_serial\<close>.  This is the order
  in which the parent sends; it waits for no acknowledgment.
\<close>

theorem pause_resume_order: "scan Relaying (fst (uplink g rs)) \<noteq> None"
proof (induction g rs rule: uplink.induct)
  case (4 g b rs)
  show ?case
  proof (cases "mask7 b = PROTO_CHAR")
    case True
    obtain q where q: "scan Pause_Sent (fst (proto_xfer g rs)) = Some q"
      and r: "(\<exists>rs'. snd (proto_xfer g rs) = Returns () rs') \<longrightarrow> q = Pause_Sent"
      using scan_proto_xfer [of g rs] by blast
    show ?thesis
    proof (cases "snd (proto_xfer g rs)")
      case (Returns a rs')
      with 4 True have "scan Relaying (fst (uplink g rs')) \<noteq> None" by simp
      with Returns True q r show ?thesis
        by (simp add: bind_run_def scan_append)
    qed (use True q in \<open>simp_all add: bind_run_def\<close>)
  next
    case False
    with 4 show ?thesis by simp
  qed
qed (simp_all add: done_fn_def)

theorem pause_resume_order_witness:
  "scan Relaying (fst (uplink default_globals [Byte 0x1A, Byte (ch CHR ''r''), Byte 0x41])) =
     Some Relaying
   \<and> scan Relaying [System (Command ''lrz'' None)] = None
   \<and> scan Relaying [Kill SIGUSR1, System (Command ''lrz'' None), Kill SIGUSR2] = None"
  using pause_resume_order [of default_globals "[Byte 0x1A, Byte (ch CHR ''r''), Byte 0x41]"]
  by (simp add: mask7_def PROTO_CHAR_def proto_cmd_def ch_def rx_xfer_def default_globals_def)

text \<open>
  The claim C9 as written has the downlink blocked before a transfer starts.  The
  parent sends the pause signal and goes on: after escape and \<open>r\<close> it reaches the
  call of \<open>system()\<close>, and returns from it, while the signal is still pending and the
  child is in its read loop.
\<close>

theorem transfer_without_pause_counterexample:
  "reach (Sys (fst (uplink default_globals [Byte 0x1A, Byte (ch CHR ''r'')])) C_Loop {})
         (Sys [System (Command ''lrz'' None), SetupSerial, Kill SIGUSR2] C_Loop {SIGUSR1})
   \<and> transfer_unpaused (Sys [System (Command ''lrz'' None), SetupSerial, Kill SIGUSR2] C_Loop {SIGUSR1})
   \<and> reach (Sys (fst (uplink default_globals [Byte 0x1A, Byte (ch CHR ''r'')])) C_Loop {})
         (Sys [SetupSerial, Kill SIGUSR2] C_Loop {SIGUSR1})"
proof -
  have u: "fst (uplink default_globals [Byte 0x1A, Byte (ch CHR ''r'')]) =
      [Kill SIGUSR1, System (Command ''lrz'' None), SetupSerial, Kill SIGUSR2]"
    by (simp add: mask7_def PROTO_CHAR_def proto_cmd_def ch_def rx_xfer_def default_globals_def)
  have "step (Sys [Kill SIGUSR1, System (Command ''lrz'' None), SetupSerial, Kill SIGUSR2] C_Loop {})
      (Sys [System (Command ''lrz'' None), SetupSerial, Kill SIGUSR2] C_Loop ({} \<union> sends (Kill SIGUSR1)))"
    by (rule parent_next)
  then have 1: "reach (Sys [Kill SIGUSR1, System (Command ''lrz'' None), SetupSerial, Kill SIGUSR2] C_Loop {})
      (Sys [System (Command ''lrz'' None), SetupSerial, Kill SIGUSR2] C_Loop {SIGUSR1})"
    using reach_step [OF reach_refl] by simp
  have "step (Sys [System (Command ''lrz'' None), SetupSerial, Kill SIGUSR2] C_Loop {SIGUSR1})
      (Sys [SetupSerial, Kill SIGUSR2] C_Loop ({SIGUSR1} \<union> sends (System (Command ''lrz'' None))))"
    by (rule parent_next)
  then have "step (Sys [System (Command ''lrz'' None), SetupSerial, Kill SIGUSR2] C_Loop {SIGUSR1})
      (Sys [SetupSerial, Kill SIGUSR2] C_Loop {SIGUSR1})"
    by simp
  with 1 have 2: "reach (Sys [Kill SIGUSR1, System (Command ''lrz'' None), SetupSerial, Kill SIGUSR2] C_Loop {})
      (Sys [SetupSerial, Kill SIGUSR2] C_Loop {SIGUSR1})"
    by (rule reach_step)
  from 1 2 show ?thesis
    by (simp only: u transfer_unpaused.simps simp_thms)
qed

section \<open>Escape followed by escape\<close>

text \<open>
  Claim C5, as amended.  Escape followed by escape: the parent sends the pause
  signal, writes exactly one escape byte (masked, \<open>0x1A\<close>) to the serial line, sends
  the resume signal once, invokes no transfer, and goes on relaying the rest of the
  keyboard input as before.
\<close>

theorem escape_escape:
  assumes "e1 AND 0x7F = 0x1A" and "e2 AND 0x7F = 0x1A"
  shows "fst (uplink g (Byte e1 # Byte e2 # rs)) =
           [Kill SIGUSR1, WriteSerial [0x1A], Kill SIGUSR2] @ fst (uplink g rs)
         \<and> snd (uplink g (Byte e1 # Byte e2 # rs)) = snd (uplink g rs)
         \<and> uplink g [Byte e1, Byte e2] =
             ([Kill SIGUSR1, WriteSerial [0x1A], Kill SIGUSR2], Waits)"
  using assms by (simp add: proto_cmd_def mask7_def PROTO_CHAR_def)

theorem escape_escape_witness:
  "uplink default_globals [Byte 0x1A, Byte 0x9A] =
       ([Kill SIGUSR1, WriteSerial [0x1A], Kill SIGUSR2], Waits)
   \<and> uplink default_globals [Byte 0x9A, Byte 0x1A, Byte 0xC1] =
       ([Kill SIGUSR1, WriteSerial [0x1A], Kill SIGUSR2, WriteSerial [0x41]], Waits)
   \<and> serial_written (fst (uplink default_globals [Byte 0x1A, Byte 0x9A])) = [0x1A]
   \<and> length (filter (\<lambda>e. e = Kill SIGUSR2) (fst (uplink default_globals [Byte 0x1A, Byte 0x9A]))) = 1
   \<and> filter is_System (fst (uplink default_globals [Byte 0x1A, Byte 0x9A])) = []"
  using escape_escape [of "0x1A" "0x9A" default_globals "[]"]
    escape_escape [of "0x9A" "0x1A" default_globals "[Byte 0xC1]"]
  by (simp add: mask7_def PROTO_CHAR_def proto_cmd_def NL_def CR_def)

text \<open>
  The claim C5 as written has the downlink resumed.  The parent sends both signals
  without waiting; when the child handles the resume signal first (\<open>usr2\<close>, in its
  loop) and the pause signal after it, \<open>usr1\<close> calls \<open>pause()\<close> with no resume
  signal left, and the child stays blocked.
\<close>

theorem escape_escape_paused_counterexample:
  "reach (Sys (fst (uplink default_globals [Byte 0x1A, Byte 0x1A])) C_Loop {})
         (Sys [] C_Paused {})"
proof -
  have u: "fst (uplink default_globals [Byte 0x1A, Byte 0x1A]) =
      [Kill SIGUSR1, WriteSerial [0x1A], Kill SIGUSR2]"
    by (simp add: mask7_def PROTO_CHAR_def proto_cmd_def)
  have "step (Sys [Kill SIGUSR1, WriteSerial [0x1A], Kill SIGUSR2] C_Loop {})
      (Sys [WriteSerial [0x1A], Kill SIGUSR2] C_Loop ({} \<union> sends (Kill SIGUSR1)))"
    by (rule parent_next)
  then have 1: "reach (Sys [Kill SIGUSR1, WriteSerial [0x1A], Kill SIGUSR2] C_Loop {})
      (Sys [WriteSerial [0x1A], Kill SIGUSR2] C_Loop {SIGUSR1})"
    using reach_step [OF reach_refl] by simp
  have "step (Sys [WriteSerial [0x1A], Kill SIGUSR2] C_Loop {SIGUSR1})
      (Sys [Kill SIGUSR2] C_Loop ({SIGUSR1} \<union> sends (WriteSerial [0x1A])))"
    by (rule parent_next)
  then have "step (Sys [WriteSerial [0x1A], Kill SIGUSR2] C_Loop {SIGUSR1})
      (Sys [Kill SIGUSR2] C_Loop {SIGUSR1})"
    by simp
  with 1 have 2: "reach (Sys [Kill SIGUSR1, WriteSerial [0x1A], Kill SIGUSR2] C_Loop {})
      (Sys [Kill SIGUSR2] C_Loop {SIGUSR1})"
    by (rule reach_step)
  have "step (Sys [Kill SIGUSR2] C_Loop {SIGUSR1})
      (Sys [] C_Loop ({SIGUSR1} \<union> sends (Kill SIGUSR2)))"
    by (rule parent_next)
  then have "step (Sys [Kill SIGUSR2] C_Loop {SIGUSR1}) (Sys [] C_Loop {SIGUSR1, SIGUSR2})"
    by (simp add: insert_commute)
  with 2 have 3: "reach (Sys [Kill SIGUSR1, WriteSerial [0x1A], Kill SIGUSR2] C_Loop {})
      (Sys [] C_Loop {SIGUSR1, SIGUSR2})"
    by (rule reach_step)
  have "step (Sys [] C_Loop {SIGUSR1, SIGUSR2}) (Sys [] C_Loop ({SIGUSR1, SIGUSR2} - {SIGUSR2}))"
    by (rule deliver_usr2_loop) simp
  then have "step (Sys [] C_Loop {SIGUSR1, SIGUSR2}) (Sys [] C_Loop {SIGUSR1})"
    by (simp add: insert_Diff_if)
  with 3 have 4: "reach (Sys [Kill SIGUSR1, WriteSerial [0x1A], Kill SIGUSR2] C_Loop {})
      (Sys [] C_Loop {SIGUSR1})"
    by (rule reach_step)
  have "step (Sys [] C_Loop {SIGUSR1}) (Sys [] C_Paused ({SIGUSR1} - {SIGUSR1}))"
    by (rule deliver_usr1) simp
  then have "step (Sys [] C_Loop {SIGUSR1}) (Sys [] C_Paused {})"
    by simp
  with 4 have "reach (Sys [Kill SIGUSR1, WriteSerial [0x1A], Kill SIGUSR2] C_Loop {})
      (Sys [] C_Paused {})"
    by (rule reach_step)
  then show ?thesis by (simp only: u)
qed

lemma paused_with_nothing_pending_is_stuck: "\<not> step (Sys [] C_Paused {}) t"
  by (auto elim: step.cases)

end
